theory Spec2Isabelle
  imports Main "HOL-Library.AList" "HOL-Library.Sublist"
begin

section \<open>Python values of a deserialized JSON document\<close>

text \<open>
  The controllers of \<^verbatim>\<open>metadata/controllers/submission.py\<close> receive a deserialized
  JSON document. Python is dynamically typed, so every value a JSON parser can produce is
  a possible value at every position of the document: \<^verbatim>\<open>None\<close>, a bool, an int, a
  float, a str, a list or a dict. A dict is an association list in insertion order, read
  with \<^const>\<open>map_of\<close>; a parsed JSON object has distinct keys. A float is only
  ever tested for truth and passed on, so it is kept as mantissa and exponent, an infinity
  with its sign, or not-a-number.
\<close>

datatype pyfloat = Finite int int | Infinite bool | NotANumber

datatype json =
    JNull
  | JBool bool
  | JInt int
  | JFloat pyfloat
  | JStr string
  | JList "json list"
  | JObj "(string \<times> json) list"

type_synonym pydict = "(string \<times> json) list"

text \<open>
  The exceptions of the module: the ones the interpreter raises on a value of the wrong
  shape, the three of the events package that the controllers name, any other exception
  (with \<^verbatim>\<open>str(type(e))\<close> and \<^verbatim>\<open>str(e)\<close>), and the three HTTP exceptions imported
  from werkzeug. Every one of them is an instance of \<^verbatim>\<open>Exception\<close>. The payload of
  \<open>InvalidEvent\<close>, \<open>SaveError\<close> and \<open>NoSuchSubmission\<close> is \<^verbatim>\<open>str(e)\<close>.
\<close>

datatype exn =
    KeyError string
  | TypeError
  | AttributeError
  | InvalidEvent string
  | SaveError string
  | NoSuchSubmission string
  | OtherException string string
  | BadRequest string
  | NotFound string
  | InternalServerError string

text \<open>Truth value of a Python object, as \<^verbatim>\<open>and\<close> and \<^verbatim>\<open>if\<close> test it.\<close>

fun truthy :: "json \<Rightarrow> bool" where
  "truthy JNull = False"
| "truthy (JBool b) = b"
| "truthy (JInt i) = (i \<noteq> 0)"
| "truthy (JFloat f) = (case f of Finite m e \<Rightarrow> m \<noteq> 0 | _ \<Rightarrow> True)"
| "truthy (JStr s) = (s \<noteq> [])"
| "truthy (JList xs) = (xs \<noteq> [])"
| "truthy (JObj kvs) = (kvs \<noteq> [])"

text \<open>
  \<^verbatim>\<open>key in v\<close> for a str \<open>key\<close>: key membership in a dict, element equality in a
  list, substring test in a str, TypeError on anything else.
\<close>

fun py_contains :: "string \<Rightarrow> json \<Rightarrow> exn + bool" where
  "py_contains key (JObj kvs) = Inr (key \<in> set (map fst kvs))"
| "py_contains key (JList xs) = Inr (JStr key \<in> set xs)"
| "py_contains key (JStr s) = Inr (sublist key s)"
| "py_contains key v = Inl TypeError"

text \<open>
  \<^verbatim>\<open>v[key]\<close> for a str \<open>key\<close>: the value in a dict, KeyError when the key is
  missing; a list and a str take integer indices only, the other values take none.
\<close>

fun py_getitem :: "json \<Rightarrow> string \<Rightarrow> exn + json" where
  "py_getitem (JObj kvs) key =
     (case map_of kvs key of None \<Rightarrow> Inl (KeyError key) | Some x \<Rightarrow> Inr x)"
| "py_getitem v key = Inl TypeError"

text \<open>\<^verbatim>\<open>v.get(key)\<close>: only a dict has the method; a missing key gives \<^verbatim>\<open>None\<close>.\<close>

fun py_get :: "json \<Rightarrow> string \<Rightarrow> exn + json" where
  "py_get (JObj kvs) key = Inr (case map_of kvs key of None \<Rightarrow> JNull | Some x \<Rightarrow> x)"
| "py_get v key = Inl AttributeError"

text \<open>
  \<^verbatim>\<open>for x in v\<close>: the elements of a list, the keys of a dict, the characters of a
  str; nothing else is iterable.
\<close>

fun py_iter :: "json \<Rightarrow> exn + json list" where
  "py_iter (JList xs) = Inr xs"
| "py_iter (JObj kvs) = Inr (map (\<lambda>kv. JStr (fst kv)) kvs)"
| "py_iter (JStr s) = Inr (map (\<lambda>c. JStr [c]) s)"
| "py_iter v = Inl TypeError"

text \<open>
  \<^verbatim>\<open>v[key] = x\<close> for a str \<open>key\<close>: a dict stores the value (in place of the old one,
  or as its last item); the object after the assignment is returned.
\<close>

fun py_setitem :: "json \<Rightarrow> string \<Rightarrow> json \<Rightarrow> exn + json" where
  "py_setitem (JObj kvs) key x = Inr (JObj (AList.update key x kvs))"
| "py_setitem v key x = Inl TypeError"

section \<open>Agents and events\<close>

text \<open>
  The classes of the events package are not part of the module; a constructor call is
  kept as the constructor applied to the arguments the module passes. \<open>User\<close> is called
  with \<open>native_id\<close> and \<open>email\<close>, and once with a third positional argument.
\<close>

datatype agent =
    User json json "json option"
  | Client json

type_synonym agents = "agent \<times> agent \<times> agent option"

datatype author = Author pydict

datatype event =
    CreateSubmission agents
  | AssertAuthorship agents json
  | SelectLicense agents json json
  | AcceptPolicy agents
  | SetPrimaryClassification agents json
  | AddSecondaryClassification agents json
  | UpdateMetadata agents "(string \<times> json) list"
  | UpdateAuthors agents "author list"

text \<open>The keyword arguments \<open>creator\<close>, \<open>client\<close>, \<open>proxy\<close> an event was built with.\<close>

fun event_agents :: "event \<Rightarrow> agents" where
  "event_agents (CreateSubmission a) = a"
| "event_agents (AssertAuthorship a v) = a"
| "event_agents (SelectLicense a n u) = a"
| "event_agents (AcceptPolicy a) = a"
| "event_agents (SetPrimaryClassification a c) = a"
| "event_agents (AddSecondaryClassification a c) = a"
| "event_agents (UpdateMetadata a m) = a"
| "event_agents (UpdateAuthors a xs) = a"

fun is_CreateSubmission :: "event \<Rightarrow> bool" where
  "is_CreateSubmission (CreateSubmission a) = True"
| "is_CreateSubmission e = False"

fun is_UpdateMetadata :: "event \<Rightarrow> bool" where
  "is_UpdateMetadata (UpdateMetadata a m) = True"
| "is_UpdateMetadata e = False"

fun is_UpdateAuthors :: "event \<Rightarrow> bool" where
  "is_UpdateAuthors (UpdateAuthors a xs) = True"
| "is_UpdateAuthors e = False"

section \<open>Resolving the agents of a request\<close>

text \<open>
  \<^verbatim>\<open>_get_agents(headers, user_data, client_data)\<close>. The values of request headers are
  strings, so \<^verbatim>\<open>headers.get('X-On-Behalf-Of')\<close> is \<^verbatim>\<open>None\<close> exactly when the key is
  missing. A missing key of \<open>user_data\<close> or \<open>client_data\<close> raises KeyError.
\<close>

definition private_get_agents ::
  "(string \<times> string) list \<Rightarrow> pydict \<Rightarrow> pydict \<Rightarrow> exn + agents" where
  "private_get_agents headers user_data client_data =
     (case map_of user_data ''user_id'' of
        None \<Rightarrow> Inl (KeyError ''user_id'')
      | Some user_id \<Rightarrow>
     (case map_of user_data ''email'' of
        None \<Rightarrow> Inl (KeyError ''email'')
      | Some email \<Rightarrow>
     (case map_of client_data ''client_id'' of
        None \<Rightarrow> Inl (KeyError ''client_id'')
      | Some client_id \<Rightarrow>
     (let user = User user_id email None;
          client = Client client_id
      in case map_of headers ''X-On-Behalf-Of'' of
           Some on_behalf_of \<Rightarrow>
             Inr (User (JStr on_behalf_of) (JStr '''') (Some (JStr '''')), client, Some user)
         | None \<Rightarrow> Inr (user, client, None)))))"

section \<open>Compiling a document into events\<close>

text \<open>
  \<^verbatim>\<open>_update_submission(data, creator, client, proxy)\<close>, block by block. An exception
  leaves the function at once, and the list \<open>new_events\<close> built so far is lost with the
  frame; so each block gives either the exception or the events it appends.
\<close>

text \<open>Lines 155-161: \<^verbatim>\<open>if 'submitter_is_author' in data\<close>.\<close>

definition authorship_events :: "agents \<Rightarrow> pydict \<Rightarrow> event list" where
  "authorship_events agents data =
     (case map_of data ''submitter_is_author'' of
        None \<Rightarrow> []
      | Some v \<Rightarrow> [AssertAuthorship agents v])"

text \<open>
  Lines 162-169: \<^verbatim>\<open>if 'license' in data\<close>. The keyword arguments are evaluated in
  the order written: \<^verbatim>\<open>data['license'].get('name')\<close>, then
  \<^verbatim>\<open>data['license']['uri']\<close>.
\<close>

definition license_events :: "agents \<Rightarrow> pydict \<Rightarrow> exn + event list" where
  "license_events agents data =
     (case map_of data ''license'' of
        None \<Rightarrow> Inr []
      | Some license \<Rightarrow>
          (case py_get license ''name'' of
             Inl e \<Rightarrow> Inl e
           | Inr license_name \<Rightarrow>
               (case py_getitem license ''uri'' of
                  Inl e \<Rightarrow> Inl e
                | Inr license_uri \<Rightarrow> Inr [SelectLicense agents license_name license_uri])))"

text \<open>Lines 171-172: the key is present and its value is true.\<close>

definition policy_events :: "agents \<Rightarrow> pydict \<Rightarrow> event list" where
  "policy_events agents data =
     (case map_of data ''submitter_accepts_policy'' of
        None \<Rightarrow> []
      | Some v \<Rightarrow> if truthy v then [AcceptPolicy agents] else [])"

text \<open>Lines 175-179: \<^verbatim>\<open>data['primary_classification']['category']\<close>.\<close>

definition primary_events :: "agents \<Rightarrow> pydict \<Rightarrow> exn + event list" where
  "primary_events agents data =
     (case map_of data ''primary_classification'' of
        None \<Rightarrow> Inr []
      | Some primary \<Rightarrow>
          (case py_getitem primary ''category'' of
             Inl e \<Rightarrow> Inl e
           | Inr category \<Rightarrow> Inr [SetPrimaryClassification agents category]))"

text \<open>Lines 181-185: the loop over \<^verbatim>\<open>data.get('secondary_classification', [])\<close>.\<close>

fun secondary_loop :: "agents \<Rightarrow> json list \<Rightarrow> exn + event list" where
  "secondary_loop agents [] = Inr []"
| "secondary_loop agents (classification_datum # rest) =
     (case py_getitem classification_datum ''category'' of
        Inl e \<Rightarrow> Inl e
      | Inr category \<Rightarrow>
          (case secondary_loop agents rest of
             Inl e \<Rightarrow> Inl e
           | Inr evs \<Rightarrow> Inr (AddSecondaryClassification agents category # evs)))"

definition secondary_events :: "agents \<Rightarrow> pydict \<Rightarrow> exn + event list" where
  "secondary_events agents data =
     (case py_iter (case map_of data ''secondary_classification'' of
                      None \<Rightarrow> JList []
                    | Some v \<Rightarrow> v) of
        Inl e \<Rightarrow> Inl e
      | Inr items \<Rightarrow> secondary_loop agents items)"

text \<open>
  Lines 190-195: the loop over \<^verbatim>\<open>ev.UpdateMetadata.FIELDS\<close>. The constant belongs to
  the events package, so the list of field names is a parameter.
\<close>

fun metadata_loop :: "json \<Rightarrow> string list \<Rightarrow> exn + (string \<times> json) list" where
  "metadata_loop md [] = Inr []"
| "metadata_loop md (key # keys) =
     (case py_contains key md of
        Inl e \<Rightarrow> Inl e
      | Inr present \<Rightarrow>
          if \<not> present then metadata_loop md keys
          else (case py_getitem md key of
                  Inl e \<Rightarrow> Inl e
                | Inr v \<Rightarrow>
                    (case metadata_loop md keys of
                       Inl e \<Rightarrow> Inl e
                     | Inr metadata \<Rightarrow> Inr ((key, v) # metadata))))"

text \<open>\<^verbatim>\<open>ev.Author(**au)\<close>: the argument after \<^verbatim>\<open>**\<close> must be a mapping.\<close>

fun Author_call :: "json \<Rightarrow> exn + author" where
  "Author_call (JObj kwargs) = Inr (Author kwargs)"
| "Author_call v = Inl TypeError"

text \<open>
  Lines 200-203: the loop over \<^verbatim>\<open>enumerate(data['metadata']['authors'])\<close>. The
  assignment \<^verbatim>\<open>au['order'] = i\<close> changes the object that the document holds, so the
  loop returns, beside the exception or the authors built, the items as they are when it
  is left.
\<close>

fun authors_loop :: "nat \<Rightarrow> json list \<Rightarrow> (exn + author list) \<times> json list" where
  "authors_loop i [] = (Inr [], [])"
| "authors_loop i (au # rest) =
     (case py_contains ''order'' au of
        Inl e \<Rightarrow> (Inl e, au # rest)
      | Inr present \<Rightarrow>
          (case (if \<not> present then py_setitem au ''order'' (JInt (int i)) else Inr au) of
             Inl e \<Rightarrow> (Inl e, au # rest)
           | Inr au' \<Rightarrow>
               (case Author_call au' of
                  Inl e \<Rightarrow> (Inl e, au' # rest)
                | Inr a \<Rightarrow>
                    (case authors_loop (Suc i) rest of
                       (Inl e, rest') \<Rightarrow> (Inl e, au' # rest')
                     | (Inr authors, rest') \<Rightarrow> (Inr (a # authors), au' # rest')))))"

text \<open>
  The items of a list are the objects the list holds, so what the loop did to them is
  seen in the list afterwards; the items of a dict or of a str are strings, which
  nothing can change. A deserialized document holds every object at one position only,
  so the document after the loop is the document with the items of the loop in place of
  the old ones.
\<close>

fun iterated :: "json \<Rightarrow> json list \<Rightarrow> json" where
  "iterated (JList xs) items = JList items"
| "iterated v items = v"

text \<open>
  Lines 187-204: \<^verbatim>\<open>if 'metadata' in data\<close>. The second component is the document
  after the block.
\<close>

definition metadata_events ::
  "string list \<Rightarrow> agents \<Rightarrow> pydict \<Rightarrow> (exn + event list) \<times> pydict" where
  "metadata_events FIELDS agents data =
     (case map_of data ''metadata'' of
        None \<Rightarrow> (Inr [], data)
      | Some md \<Rightarrow>
     (case metadata_loop md FIELDS of
        Inl e \<Rightarrow> (Inl e, data)
      | Inr metadata \<Rightarrow>
     (case py_contains ''authors'' md of
        Inl e \<Rightarrow> (Inl e, data)
      | Inr present \<Rightarrow>
          if \<not> present then (Inr [UpdateMetadata agents metadata], data)
          else
     (case py_getitem md ''authors'' of
        Inl e \<Rightarrow> (Inl e, data)
      | Inr aus \<Rightarrow>
     (case py_iter aus of
        Inl e \<Rightarrow> (Inl e, data)
      | Inr items \<Rightarrow>
     (case authors_loop 0 items of
        (r, items') \<Rightarrow>
          let data' = (case md of
                         JObj kvs \<Rightarrow>
                           AList.update ''metadata''
                             (JObj (AList.update ''authors'' (iterated aus items') kvs)) data
                       | _ \<Rightarrow> data)
          in (case r of
                Inl e \<Rightarrow> (Inl e, data')
              | Inr authors \<Rightarrow>
                  (Inr [UpdateMetadata agents metadata, UpdateAuthors agents authors],
                   data'))))))))"

text \<open>
  The whole function: the blocks in the order of the source. Only the last block changes
  the document.
\<close>

definition private_update_submission ::
  "string list \<Rightarrow> pydict \<Rightarrow> agent \<Rightarrow> agent \<Rightarrow> agent option \<Rightarrow> (exn + event list) \<times> pydict"
  where
  "private_update_submission FIELDS data creator client proxy =
     (let agents = (creator, client, proxy);
          ev1 = authorship_events agents data
      in case license_events agents data of
           Inl e \<Rightarrow> (Inl e, data)
         | Inr ev2 \<Rightarrow>
     (let ev3 = policy_events agents data
      in case primary_events agents data of
           Inl e \<Rightarrow> (Inl e, data)
         | Inr ev4 \<Rightarrow>
     (case secondary_events agents data of
        Inl e \<Rightarrow> (Inl e, data)
      | Inr ev5 \<Rightarrow>
     (case metadata_events FIELDS agents data of
        (Inl e, data') \<Rightarrow> (Inl e, data')
      | (Inr ev6, data') \<Rightarrow> (Inr (ev1 @ ev2 @ ev3 @ ev4 @ ev5 @ ev6), data')))))"

section \<open>The controllers\<close>

text \<open>
  The event store (\<^verbatim>\<open>ev.save\<close>, \<^verbatim>\<open>ev.load\<close>) and \<^verbatim>\<open>url_for\<close> are collaborators
  outside the module: each is a parameter, a function from the arguments of the call to
  the exception it raises or the value it returns. A submission is what the store
  returns: its \<open>submission_id\<close> and the result of its \<open>to_dict()\<close>.
\<close>

datatype submission = Submission json json

fun submission_id_of :: "submission \<Rightarrow> json" where
  "submission_id_of (Submission i d) = i"

fun to_dict :: "submission \<Rightarrow> json" where
  "to_dict (Submission i d) = d"

datatype url_arg = Arg_json json | Arg_agent agent

type_synonym save_fn = "event list \<Rightarrow> string option \<Rightarrow> exn + submission \<times> event list"
type_synonym load_fn = "string \<Rightarrow> exn + submission \<times> event list"
type_synonym url_fn = "string \<Rightarrow> (string \<times> url_arg) list \<Rightarrow> exn + string"

type_synonym response = "json \<times> nat \<times> (string \<times> string) list"

text \<open>
  What a controller does besides returning: the records it hands to the logger (the
  format string and the values formatted into it), the calls it makes to the store, and
  the document as the call leaves it.
\<close>

datatype log_arg = Type_of exn | Str_of exn | Str_agent agent | Str_proxy "agent option"

datatype log_record = Debug string "log_arg list" | Error string "log_arg list"

datatype store_call = Save "event list" "string option" | Load string

record outcome =
  logged :: "log_record list"
  store_calls :: "store_call list"
  document :: pydict
  result :: "exn + response"

definition HTTP_200_OK :: nat where "HTTP_200_OK = 200"
definition HTTP_201_CREATED :: nat where "HTTP_201_CREATED = 201"

text \<open>
  The record of \<^verbatim>\<open>logger.error('Unhandled exception: (%s) %s', str(type(e)), str(e))\<close>.
\<close>

definition unhandled :: "exn \<Rightarrow> log_record" where
  "unhandled e = Error ''Unhandled exception: (%s) %s'' [Type_of e, Str_of e]"

text \<open>
  Modelled from the spec: \<^verbatim>\<open>util.validate_request(schema_path)\<close>, the decorator of
  \<open>create_submission\<close> (line 44) and \<open>update_submission\<close> (line 105), is defined in a
  module that is not among the sources. The specification has the request schema
  validated before the compiler runs and a rejected document answered with
  \<open>BadRequest\<close>, as the tests of the invalid document expect; an accepted document
  reaches the decorated function as it is. Which documents a schema accepts is a
  parameter: \<open>schema_violation\<close> gives the message of the violation, or \<open>None\<close>.
  The last argument is the outcome of the decorated function.
\<close>

definition validate_request ::
  "(string \<Rightarrow> pydict \<Rightarrow> string option) \<Rightarrow> string \<Rightarrow> pydict \<Rightarrow> outcome \<Rightarrow> outcome" where
  "validate_request schema_violation schema_path data decorated =
     (case schema_violation schema_path data of
        Some message \<Rightarrow>
          \<lparr>logged = [], store_calls = [], document = data,
           result = Inl (BadRequest message)\<rparr>
      | None \<Rightarrow> decorated)"

text \<open>The \<^verbatim>\<open>except\<close> clauses of \<open>create_submission\<close>, lines 76-82, in their order.\<close>

fun create_handler :: "exn \<Rightarrow> log_record list \<times> exn" where
  "create_handler (InvalidEvent m) = ([], InternalServerError m)"
| "create_handler (SaveError m) =
     ([], InternalServerError (''Problem interacting with database: '' @ m))"
| "create_handler e = ([unhandled e], InternalServerError ''Encountered unhandled exception'')"

definition create_submission ::
  "(string \<Rightarrow> pydict \<Rightarrow> string option) \<Rightarrow> save_fn \<Rightarrow> url_fn \<Rightarrow> string list \<Rightarrow> pydict
     \<Rightarrow> (string \<times> string) list \<Rightarrow> pydict \<Rightarrow> pydict \<Rightarrow> string \<Rightarrow> outcome" where
  "create_submission schema_violation ev_save url_for FIELDS data headers user_data
       client_data token =
     validate_request schema_violation ''schema/resources/submission.json'' data
     (let log1 = [Debug ''Received request to create submission'' []]
      in case private_get_agents headers user_data client_data of
           Inl e \<Rightarrow> \<lparr>logged = log1, store_calls = [], document = data, result = Inl e\<rparr>
         | Inr (user, client, proxy) \<Rightarrow>
     (let log2 = log1 @ [Debug ''User: {user}; client: {client}, proxy: {proxy}''
                           [Str_agent user, Str_agent client, Str_proxy proxy]]
      in case private_update_submission FIELDS data user client proxy of
           (Inl e, data') \<Rightarrow>
             \<lparr>logged = log2 @ fst (create_handler e), store_calls = [], document = data',
              result = Inl (snd (create_handler e))\<rparr>
         | (Inr new_events, data') \<Rightarrow>
     (let events = CreateSubmission (user, client, proxy) # new_events;
          calls = [Save events None]
      in case ev_save events None of
           Inl e \<Rightarrow>
             \<lparr>logged = log2 @ fst (create_handler e), store_calls = calls, document = data',
              result = Inl (snd (create_handler e))\<rparr>
         | Inr (submission, stored) \<Rightarrow>
     (case url_for ''submission.get_submission''
             [(''submission_id'', Arg_json (submission_id_of submission))] of
        Inl e \<Rightarrow> \<lparr>logged = log2, store_calls = calls, document = data', result = Inl e\<rparr>
      | Inr location \<Rightarrow>
          \<lparr>logged = log2, store_calls = calls, document = data',
           result = Inr (to_dict submission, HTTP_201_CREATED, [(''Location'', location)])\<rparr>))))"

text \<open>The \<^verbatim>\<open>except\<close> clauses of \<open>get_submission\<close>, lines 97-101.\<close>

fun get_handler :: "exn \<Rightarrow> log_record list \<times> exn" where
  "get_handler (NoSuchSubmission m) = ([], NotFound ''Submission not found'')"
| "get_handler e = ([unhandled e], InternalServerError ''Encountered unhandled exception'')"

text \<open>
  \<open>get_submission\<close> has no document; the three optional arguments are \<^verbatim>\<open>None\<close> or a
  string.
\<close>

definition get_submission ::
  "load_fn \<Rightarrow> string \<Rightarrow> string option \<Rightarrow> string option \<Rightarrow> string option \<Rightarrow> outcome" where
  "get_submission ev_load submission_id user client token =
     (case ev_load submission_id of
        Inl e \<Rightarrow>
          \<lparr>logged = fst (get_handler e), store_calls = [Load submission_id], document = [],
           result = Inl (snd (get_handler e))\<rparr>
      | Inr (submission, events) \<Rightarrow>
          \<lparr>logged = [], store_calls = [Load submission_id], document = [],
           result = Inr (to_dict submission, HTTP_200_OK, [])\<rparr>)"

text \<open>The \<^verbatim>\<open>except\<close> clauses of \<open>update_submission\<close>, lines 116-124.\<close>

fun update_handler :: "string \<Rightarrow> exn \<Rightarrow> log_record list \<times> exn" where
  "update_handler submission_id (NoSuchSubmission m) =
     ([], NotFound (''No submission found with id '' @ submission_id))"
| "update_handler submission_id (InvalidEvent m) = ([], InternalServerError m)"
| "update_handler submission_id (SaveError m) =
     ([], InternalServerError ''Problem interacting with database'')"
| "update_handler submission_id e =
     ([unhandled e], InternalServerError ''Encountered unhandled exception'')"

definition update_submission ::
  "(string \<Rightarrow> pydict \<Rightarrow> string option) \<Rightarrow> save_fn \<Rightarrow> url_fn \<Rightarrow> string list \<Rightarrow> pydict
     \<Rightarrow> (string \<times> string) list \<Rightarrow> pydict \<Rightarrow> pydict \<Rightarrow> string \<Rightarrow> string \<Rightarrow> outcome" where
  "update_submission schema_violation ev_save url_for FIELDS data headers user_data
       client_data token submission_id =
     validate_request schema_violation ''schema/resources/submission.json'' data
     (case private_get_agents headers user_data client_data of
        Inl e \<Rightarrow> \<lparr>logged = [], store_calls = [], document = data, result = Inl e\<rparr>
      | Inr (user, client, proxy) \<Rightarrow>
     (case private_update_submission FIELDS data user client proxy of
        (Inl e, data') \<Rightarrow>
          \<lparr>logged = fst (update_handler submission_id e), store_calls = [], document = data',
           result = Inl (snd (update_handler submission_id e))\<rparr>
      | (Inr new_events, data') \<Rightarrow>
     (let calls = [Save new_events (Some submission_id)]
      in case ev_save new_events (Some submission_id) of
           Inl e \<Rightarrow>
             \<lparr>logged = fst (update_handler submission_id e), store_calls = calls,
              document = data', result = Inl (snd (update_handler submission_id e))\<rparr>
         | Inr (submission, stored) \<Rightarrow>
     (case url_for ''submit.get_submission''
             [(''creator'', Arg_agent user),
              (''submission_id'', Arg_json (submission_id_of submission))] of
        Inl e \<Rightarrow> \<lparr>logged = [], store_calls = calls, document = data', result = Inl e\<rparr>
      | Inr location \<Rightarrow>
          \<lparr>logged = [], store_calls = calls, document = data',
           result = Inr (to_dict submission, HTTP_200_OK, [(''Location'', location)])\<rparr>))))"

section \<open>Vocabulary of the properties\<close>

text \<open>The items of a document value that is a dict; any other value has none.\<close>

fun items_of :: "json \<Rightarrow> pydict" where
  "items_of (JObj kvs) = kvs"
| "items_of v = []"

text \<open>
  The fields of an \<open>UpdateMetadata\<close> event: for each name of \<open>FIELDS\<close>, in that order,
  the name and its value in the metadata, when the metadata has the name.
\<close>

definition fields_of :: "string list \<Rightarrow> json \<Rightarrow> (string \<times> json) list" where
  "fields_of FIELDS md =
     List.map_filter (\<lambda>key. map_option (Pair key) (map_of (items_of md) key)) FIELDS"

text \<open>
  The keyword arguments of an author at position \<open>i\<close>: as supplied when they have
  \<open>order\<close>, with \<open>order = i\<close> as their last item otherwise.
\<close>

definition order_defaulted :: "nat \<Rightarrow> pydict \<Rightarrow> pydict" where
  "order_defaulted i kwargs =
     (if ''order'' \<in> fst ` set kwargs then kwargs else kwargs @ [(''order'', JInt (int i))])"

definition default_orders :: "json list \<Rightarrow> json list" where
  "default_orders aus =
     map (\<lambda>(i, au). case au of JObj kwargs \<Rightarrow> JObj (order_defaulted i kwargs) | _ \<Rightarrow> au)
       (enumerate 0 aus)"

text \<open>
  The document with the defaulted orders written into the author entries of
  \<open>metadata.authors\<close>, and nothing else changed.
\<close>

definition document_after :: "pydict \<Rightarrow> pydict" where
  "document_after data =
     (case map_of data ''metadata'' of
        Some (JObj md) \<Rightarrow>
          (case map_of md ''authors'' of
             Some (JList aus) \<Rightarrow>
               AList.update ''metadata''
                 (JObj (AList.update ''authors'' (JList (default_orders aus)) md)) data
           | _ \<Rightarrow> data)
      | _ \<Rightarrow> data)"

text \<open>
  The exceptions of the store that some \<^verbatim>\<open>except\<close> clause of the module names:
  validation rejection, persistence failure, not-found.
\<close>

fun recognized :: "exn \<Rightarrow> bool" where
  "recognized (InvalidEvent m) = True"
| "recognized (SaveError m) = True"
| "recognized (NoSuchSubmission m) = True"
| "recognized e = False"

text \<open>The client-fault response: werkzeug's \<open>BadRequest\<close>, status 400.\<close>

fun is_BadRequest :: "exn \<Rightarrow> bool" where
  "is_BadRequest (BadRequest m) = True"
| "is_BadRequest e = False"

section \<open>Requests of the test suite\<close>

text \<open>
  The identities, token and documents of \<^verbatim>\<open>tests.py\<close>, a sample of field names, a
  schema check that rejects a \<open>metadata\<close> that is not an object, as the tests expect of
  \<^verbatim>\<open>{'metadata': 'bad value'}\<close>, a \<open>url_for\<close> that returns \<^verbatim>\<open>'/foo/'\<close> as the
  mocked one does and one that raises, and stores that accept, reject or fail.
\<close>

definition test_FIELDS :: "string list" where
  "test_FIELDS = [''title'', ''abstract'', ''doi'', ''msc_class'', ''acm_class'',
     ''report_num'', ''journal_ref'', ''comments'']"

definition test_user_data :: pydict where
  "test_user_data = [(''user_id'', JInt 1234), (''email'', JStr ''foo@bar.baz'')]"

definition test_client_data :: pydict where
  "test_client_data = [(''client_id'', JInt 5678)]"

definition test_user :: agent where
  "test_user = User (JInt 1234) (JStr ''foo@bar.baz'') None"

definition test_client :: agent where
  "test_client = Client (JInt 5678)"

definition test_url_for :: url_fn where
  "test_url_for endpoint args = Inr ''/foo/''"

definition test_schema_violation :: "string \<Rightarrow> pydict \<Rightarrow> string option" where
  "test_schema_violation schema_path data =
     (case map_of data ''metadata'' of
        None \<Rightarrow> None
      | Some md \<Rightarrow>
          (case md of
             JObj kvs \<Rightarrow> None
           | _ \<Rightarrow> Some ''Metadata validation failed: metadata is not of type object''))"

definition failing_url_for :: url_fn where
  "failing_url_for endpoint args =
     Inl (OtherException ''BuildError'' ''Could not build url for endpoint'')"

definition bad_metadata_document :: pydict where
  "bad_metadata_document = [(''metadata'', JStr ''bad value'')]"

definition accepting_save :: save_fn where
  "accepting_save events submission_id = Inr (Submission (JInt 1) (JObj []), events)"

definition rejecting_save :: save_fn where
  "rejecting_save events submission_id = Inl (InvalidEvent ''foo'')"

definition failing_save :: save_fn where
  "failing_save events submission_id =
     Inl (OtherException ''RuntimeError'' ''connection reset'')"

definition failing_load :: load_fn where
  "failing_load submission_id =
     Inl (OtherException ''RuntimeError'' ''connection reset'')"

definition primary_document :: pydict where
  "primary_document = [(''primary_classification'', JObj [(''category'', JStr ''astro-ph'')])]"

definition authors_document :: pydict where
  "authors_document =
     [(''metadata'', JObj
        [(''title'', JStr ''foo title''),
         (''keywords'', JStr ''not a field''),
         (''authors'', JList
            [JObj [(''forename'', JStr ''Jane''), (''surname'', JStr ''Doe''),
                   (''email'', JStr ''jane@doe.com'')],
             JObj [(''forename'', JStr ''John''), (''surname'', JStr ''Roe''),
                   (''email'', JStr ''john@roe.com''), (''order'', JInt 7)]])])]"

definition authors_document_after :: pydict where
  "authors_document_after =
     [(''metadata'', JObj
        [(''title'', JStr ''foo title''),
         (''keywords'', JStr ''not a field''),
         (''authors'', JList
            [JObj [(''forename'', JStr ''Jane''), (''surname'', JStr ''Doe''),
                   (''email'', JStr ''jane@doe.com''), (''order'', JInt 0)],
             JObj [(''forename'', JStr ''John''), (''surname'', JStr ''Roe''),
                   (''email'', JStr ''john@roe.com''), (''order'', JInt 7)]])])]"

definition authors_events :: "agents \<Rightarrow> event list" where
  "authors_events agents =
     [UpdateMetadata agents [(''title'', JStr ''foo title'')],
      UpdateAuthors agents
        [Author [(''forename'', JStr ''Jane''), (''surname'', JStr ''Doe''),
                 (''email'', JStr ''jane@doe.com''), (''order'', JInt 0)],
         Author [(''forename'', JStr ''John''), (''surname'', JStr ''Roe''),
                 (''email'', JStr ''john@roe.com''), (''order'', JInt 7)]]]"


definition full_document :: pydict where
  "full_document =
     [(''submitter_is_author'', JBool True),
      (''license'', JObj [(''name'', JStr ''CC BY 4.0''),
                          (''uri'', JStr ''http://creativecommons.org/licenses/by/4.0/'')]),
      (''submitter_accepts_policy'', JBool True),
      (''primary_classification'', JObj [(''category'', JStr ''astro-ph.GA'')]),
      (''secondary_classification'',
         JList [JObj [(''category'', JStr ''astro-ph.CO'')],
                JObj [(''category'', JStr ''hep-th'')]]),
      (''metadata'', JObj [(''title'', JStr ''foo title'')])]"

definition full_events :: "agents \<Rightarrow> event list" where
  "full_events agents =
     [AssertAuthorship agents (JBool True),
      SelectLicense agents (JStr ''CC BY 4.0'')
        (JStr ''http://creativecommons.org/licenses/by/4.0/''),
      AcceptPolicy agents,
      SetPrimaryClassification agents (JStr ''astro-ph.GA''),
      AddSecondaryClassification agents (JStr ''astro-ph.CO''),
      AddSecondaryClassification agents (JStr ''hep-th''),
      UpdateMetadata agents [(''title'', JStr ''foo title'')]]"

definition license_document :: pydict where
  "license_document = [(''license'', JObj [(''name'', JStr ''CC BY 4.0'')])]"

section \<open>Evaluating the fixtures\<close>

lemmas compile_defs =
  private_update_submission_def authorship_events_def license_events_def policy_events_def
  primary_events_def secondary_events_def metadata_events_def

lemma test_agents:
  "private_get_agents [] test_user_data test_client_data = Inr (test_user, test_client, None)"
  by (simp add: private_get_agents_def test_user_data_def test_client_data_def test_user_def
      test_client_def)

lemma compile_primary_document:
  "private_update_submission FIELDS primary_document creator client proxy =
     (Inr [SetPrimaryClassification (creator, client, proxy) (JStr ''astro-ph'')],
      primary_document)"
  by (simp add: compile_defs primary_document_def)

lemma compile_empty_document:
  "private_update_submission FIELDS [] creator client proxy = (Inr [], [])"
  by (simp add: compile_defs)

lemma compile_authors_document:
  "private_update_submission test_FIELDS authors_document creator client proxy =
     (Inr (authors_events (creator, client, proxy)), authors_document_after)"
  by (simp add: compile_defs authors_document_def authors_document_after_def
      authors_events_def test_FIELDS_def Let_def)


lemma compile_full_document:
  "private_update_submission test_FIELDS full_document creator client proxy =
     (Inr (full_events (creator, client, proxy)), full_document)"
  by (simp add: compile_defs full_document_def full_events_def test_FIELDS_def Let_def)

lemma test_schema_accepts:
  "test_schema_violation schema_path primary_document = None"
  "test_schema_violation schema_path full_document = None"
  "test_schema_violation schema_path [] = None"
  by (simp_all add: test_schema_violation_def primary_document_def full_document_def)

lemma test_schema_rejects:
  "test_schema_violation schema_path bad_metadata_document
     = Some ''Metadata validation failed: metadata is not of type object''"
  by (simp add: test_schema_violation_def bad_metadata_document_def)

lemma create_bad_metadata_document:
  "create_submission test_schema_violation ev_save url_for FIELDS bad_metadata_document
      headers user_data client_data token
     = \<lparr>logged = [], store_calls = [], document = bad_metadata_document,
        result = Inl (BadRequest
          ''Metadata validation failed: metadata is not of type object'')\<rparr>"
  by (simp add: create_submission_def validate_request_def test_schema_rejects)

lemma update_bad_metadata_document:
  "update_submission test_schema_violation ev_save url_for FIELDS bad_metadata_document
      headers user_data client_data token submission_id
     = \<lparr>logged = [], store_calls = [], document = bad_metadata_document,
        result = Inl (BadRequest
          ''Metadata validation failed: metadata is not of type object'')\<rparr>"
  by (simp add: update_submission_def validate_request_def test_schema_rejects)

lemma create_primary_calls:
  "store_calls (create_submission test_schema_violation ev_save url_for FIELDS
      primary_document [] test_user_data test_client_data token) =
   [Save [CreateSubmission (test_user, test_client, None),
          SetPrimaryClassification (test_user, test_client, None) (JStr ''astro-ph'')] None]"
  by (simp add: create_submission_def validate_request_def test_schema_accepts test_agents
      compile_primary_document Let_def split: sum.splits prod.splits)

lemma update_primary_calls:
  "store_calls (update_submission test_schema_violation ev_save url_for FIELDS
      primary_document [] test_user_data test_client_data token submission_id) =
   [Save [SetPrimaryClassification (test_user, test_client, None) (JStr ''astro-ph'')]
      (Some submission_id)]"
  by (simp add: update_submission_def validate_request_def test_schema_accepts test_agents
      compile_primary_document Let_def split: sum.splits prod.splits)

lemma create_full_calls:
  "store_calls (create_submission test_schema_violation ev_save url_for test_FIELDS
      full_document [] test_user_data test_client_data token) =
   [Save (CreateSubmission (test_user, test_client, None)
          # full_events (test_user, test_client, None)) None]"
  by (simp add: create_submission_def validate_request_def test_schema_accepts test_agents
      compile_full_document Let_def split: sum.splits prod.splits)

lemma update_full_calls:
  "store_calls (update_submission test_schema_violation ev_save url_for test_FIELDS
      full_document [] test_user_data test_client_data token submission_id) =
   [Save (full_events (test_user, test_client, None)) (Some submission_id)]"
  by (simp add: update_submission_def validate_request_def test_schema_accepts test_agents
      compile_full_document Let_def split: sum.splits prod.splits)

section \<open>What the loops return\<close>

lemma update_absent: "k \<notin> fst ` set al \<Longrightarrow> AList.update k v al = al @ [(k, v)]"
  by (induction al) auto

lemma authors_loop_Inr:
  "authors_loop i xs = (Inr authors, xs') \<Longrightarrow>
     \<exists>kws. xs = map JObj kws
         \<and> authors = map (\<lambda>(j, kw). Author (order_defaulted j kw)) (enumerate i kws)
         \<and> xs' = map (\<lambda>(j, kw). JObj (order_defaulted j kw)) (enumerate i kws)"
proof (induction xs arbitrary: i authors xs')
  case Nil
  then show ?case by simp
next
  case (Cons au rest)
  from Cons.prems obtain kw where au: "au = JObj kw"
    by (cases au) (auto split: if_splits)
  from Cons.prems au obtain authors0 rest' where
    rec: "authors_loop (Suc i) rest = (Inr authors0, rest')"
    and a: "authors = Author (order_defaulted i kw) # authors0"
    and x: "xs' = JObj (order_defaulted i kw) # rest'"
    by (auto simp: order_defaulted_def update_absent split: if_splits sum.splits prod.splits)
  from Cons.IH [OF rec] obtain kws where
    "rest = map JObj kws"
    "authors0 = map (\<lambda>(j, kw). Author (order_defaulted j kw)) (enumerate (Suc i) kws)"
    "rest' = map (\<lambda>(j, kw). JObj (order_defaulted j kw)) (enumerate (Suc i) kws)"
    by blast
  with au a x have
    "au # rest = map JObj (kw # kws)
     \<and> authors = map (\<lambda>(j, kw). Author (order_defaulted j kw)) (enumerate i (kw # kws))
     \<and> xs' = map (\<lambda>(j, kw). JObj (order_defaulted j kw)) (enumerate i (kw # kws))"
    by simp
  then show ?case by (rule exI [where x = "kw # kws"])
qed

lemma metadata_loop_Inr:
  "metadata_loop md FIELDS = Inr metadata \<Longrightarrow> metadata = fields_of FIELDS md"
proof (induction FIELDS arbitrary: metadata)
  case Nil
  then show ?case by (simp add: fields_of_def)
next
  case (Cons key keys)
  show ?case
  proof (cases md)
    case (JObj kvs)
    with Cons show ?thesis
      by (auto simp: fields_of_def map_of_eq_None_iff
          split: if_splits sum.splits option.splits)
  next
    case (JList xs)
    with Cons show ?thesis
      by (auto simp: fields_of_def split: if_splits sum.splits)
  next
    case (JStr s)
    with Cons show ?thesis
      by (auto simp: fields_of_def split: if_splits sum.splits)
  qed (use Cons.prems in auto)
qed


lemma secondary_loop_Inr:
  "secondary_loop agents xs = Inr evs \<Longrightarrow>
     \<forall>e \<in> set evs. event_agents e = agents \<and> \<not> is_UpdateMetadata e \<and> \<not> is_UpdateAuthors e"
  by (induction xs arbitrary: evs) (auto split: sum.splits)

lemma default_orders_map:
  "default_orders (map JObj kws) = map (\<lambda>(j, kw). JObj (order_defaulted j kw)) (enumerate 0 kws)"
  by (simp add: default_orders_def enumerate_eq_zip zip_map2 case_prod_unfold)

section \<open>What the blocks return\<close>

lemma secondary_events_Inr:
  "secondary_events agents data = Inr evs \<Longrightarrow>
     \<forall>e \<in> set evs. event_agents e = agents \<and> \<not> is_UpdateMetadata e \<and> \<not> is_UpdateAuthors e"
  by (auto simp: secondary_events_def split: sum.splits dest!: secondary_loop_Inr)

lemma license_events_Inr:
  "license_events agents data = Inr evs \<Longrightarrow>
     \<forall>e \<in> set evs. event_agents e = agents \<and> \<not> is_UpdateMetadata e \<and> \<not> is_UpdateAuthors e"
  by (auto simp: license_events_def split: sum.splits option.splits)

lemma primary_events_Inr:
  "primary_events agents data = Inr evs \<Longrightarrow>
     \<forall>e \<in> set evs. event_agents e = agents \<and> \<not> is_UpdateMetadata e \<and> \<not> is_UpdateAuthors e"
  by (auto simp: primary_events_def split: sum.splits option.splits)

lemma authorship_events_all:
  "\<forall>e \<in> set (authorship_events agents data).
     event_agents e = agents \<and> \<not> is_UpdateMetadata e \<and> \<not> is_UpdateAuthors e"
  by (auto simp: authorship_events_def split: option.splits)

lemma policy_events_all:
  "\<forall>e \<in> set (policy_events agents data).
     event_agents e = agents \<and> \<not> is_UpdateMetadata e \<and> \<not> is_UpdateAuthors e"
  by (auto simp: policy_events_def split: option.splits)

lemma compile_Inr:
  assumes "private_update_submission FIELDS data creator client proxy = (Inr evs, data')"
  shows "\<exists>pre ev6. evs = pre @ ev6
           \<and> metadata_events FIELDS (creator, client, proxy) data = (Inr ev6, data')
           \<and> (\<forall>e \<in> set pre. event_agents e = (creator, client, proxy) \<and> \<not> is_UpdateMetadata e
                  \<and> \<not> is_UpdateAuthors e)"
proof -
  let ?ag = "(creator, client, proxy)"
  from assms obtain ev2 ev4 ev5 ev6 where
    l: "license_events ?ag data = Inr ev2" and
    p: "primary_events ?ag data = Inr ev4" and
    s: "secondary_events ?ag data = Inr ev5" and
    m: "metadata_events FIELDS ?ag data = (Inr ev6, data')" and
    e: "evs = authorship_events ?ag data @ ev2 @ policy_events ?ag data @ ev4 @ ev5 @ ev6"
    by (auto simp: private_update_submission_def Let_def split: sum.splits prod.splits)
  let ?pre = "authorship_events ?ag data @ ev2 @ policy_events ?ag data @ ev4 @ ev5"
  have "\<forall>e \<in> set ?pre. event_agents e = ?ag \<and> \<not> is_UpdateMetadata e \<and> \<not> is_UpdateAuthors e"
    using license_events_Inr [OF l] primary_events_Inr [OF p] secondary_events_Inr [OF s]
      authorship_events_all [of ?ag data] policy_events_all [of ?ag data]
    by (simp add: ball_Un)
  moreover have "evs = ?pre @ ev6" using e by simp
  ultimately show ?thesis using m by blast
qed

lemma metadata_events_absent:
  "map_of data ''metadata'' = None \<Longrightarrow> metadata_events FIELDS agents data = (Inr [], data)"
  by (simp add: metadata_events_def)

lemma metadata_events_Inr:
  assumes "metadata_events FIELDS agents data = (Inr ev6, data')"
      and "map_of data ''metadata'' = Some md"
  shows "\<exists>rest. ev6 = UpdateMetadata agents (fields_of FIELDS md) # rest
           \<and> (\<forall>e \<in> set rest. event_agents e = agents \<and> \<not> is_UpdateMetadata e)"
  using assms
  by (auto simp: metadata_events_def Let_def
      split: sum.splits prod.splits if_splits dest!: metadata_loop_Inr)

lemma metadata_events_authors:
  assumes "metadata_events FIELDS agents data = (Inr ev6, data')"
      and "map_of data ''metadata'' = Some (JObj md)"
      and "map_of md ''authors'' = Some (JList aus)"
  shows "\<exists>kws. aus = map JObj kws
           \<and> ev6 = [UpdateMetadata agents (fields_of FIELDS (JObj md)),
                    UpdateAuthors agents
                      (map (\<lambda>(i, kwargs). Author (order_defaulted i kwargs)) (enumerate 0 kws))]
           \<and> data' = AList.update ''metadata''
                 (JObj (AList.update ''authors'' (JList (default_orders aus)) md)) data"
proof -
  have "''authors'' \<in> fst ` set md"
    using assms(3) by (auto dest: map_of_SomeD intro: rev_image_eqI)
  with assms obtain metadata authors items' where
    ml: "metadata_loop (JObj md) FIELDS = Inr metadata" and
    al: "authors_loop 0 aus = (Inr authors, items')" and
    e: "ev6 = [UpdateMetadata agents metadata, UpdateAuthors agents authors]" and
    d: "data' = AList.update ''metadata''
                  (JObj (AList.update ''authors'' (JList items') md)) data"
    by (auto simp: metadata_events_def Let_def split: sum.splits prod.splits if_splits)
  from authors_loop_Inr [OF al] obtain kws where
    k: "aus = map JObj kws"
       "authors = map (\<lambda>(j, kw). Author (order_defaulted j kw)) (enumerate 0 kws)"
       "items' = map (\<lambda>(j, kw). JObj (order_defaulted j kw)) (enumerate 0 kws)"
    by blast
  have "aus = map JObj kws
      \<and> ev6 = [UpdateMetadata agents (fields_of FIELDS (JObj md)),
               UpdateAuthors agents
                 (map (\<lambda>(i, kwargs). Author (order_defaulted i kwargs)) (enumerate 0 kws))]
      \<and> data' = AList.update ''metadata''
            (JObj (AList.update ''authors'' (JList (default_orders aus)) md)) data"
    using k e d metadata_loop_Inr [OF ml] by (simp add: default_orders_map)
  then show ?thesis by (rule exI [where x = kws])
qed

lemma metadata_events_document:
  assumes "metadata_events FIELDS agents data = (Inr ev6, data')"
  shows "data' = document_after data"
proof (cases "map_of data ''metadata''")
  case None
  with assms show ?thesis by (simp add: metadata_events_def document_after_def)
next
  case (Some md)
  show ?thesis
  proof (cases "\<exists>kvs aus. md = JObj kvs \<and> map_of kvs ''authors'' = Some aus")
    case False
    have "py_contains ''authors'' md = Inr True \<Longrightarrow> \<exists>e. py_getitem md ''authors'' = Inl e"
      using False
      by (cases md) (auto simp: map_of_eq_None_iff [symmetric])
    then have "data' = data"
      using assms Some
      by (auto simp: metadata_events_def Let_def split: sum.splits prod.splits if_splits)
    moreover have "document_after data = data"
      using False Some by (auto simp: document_after_def split: json.splits option.splits)
    ultimately show ?thesis by simp
  next
    case True
    then obtain kvs aus where md: "md = JObj kvs" and aus: "map_of kvs ''authors'' = Some aus"
      by blast
    have mem: "''authors'' \<in> fst ` set kvs"
      using aus by (auto dest: map_of_SomeD intro: rev_image_eqI)
    show ?thesis
    proof (cases "\<exists>xs. aus = JList xs")
      case True
      then obtain xs where "aus = JList xs" by blast
      with metadata_events_authors [OF assms] Some md aus show ?thesis
        by (auto simp: document_after_def)
    next
      case False
      from assms Some md aus mem obtain items' where
        d: "data' = AList.update ''metadata''
                  (JObj (AList.update ''authors'' (iterated aus items') kvs)) data"
        by (auto simp: metadata_events_def Let_def split: sum.splits prod.splits if_splits)
      have "iterated aus items' = aus"
        using False by (cases aus) auto
      then have "data' = data"
        using d aus Some md by (simp add: update_triv)
      moreover have "document_after data = data"
        using False Some md aus by (auto simp: document_after_def split: json.splits)
      ultimately show ?thesis by simp
    qed
  qed
qed

lemma metadata_events_agents:
  assumes "metadata_events FIELDS agents data = (Inr ev6, data')"
  shows "\<forall>e \<in> set ev6. event_agents e = agents"
proof (cases "map_of data ''metadata''")
  case None
  with assms show ?thesis by (simp add: metadata_events_absent)
next
  case (Some md)
  from metadata_events_Inr [OF assms Some] show ?thesis by auto
qed

lemma compile_agents:
  assumes "private_update_submission FIELDS data creator client proxy = (Inr evs, data')"
  shows "\<forall>e \<in> set evs. event_agents e = (creator, client, proxy)"
proof -
  from compile_Inr [OF assms] obtain pre ev6 where
    "evs = pre @ ev6"
    "metadata_events FIELDS (creator, client, proxy) data = (Inr ev6, data')"
    "\<forall>e \<in> set pre. event_agents e = (creator, client, proxy)"
    by blast
  then show ?thesis
    using metadata_events_agents by (auto simp: ball_Un)
qed

section \<open>What the handlers do with an exception of the store\<close>

lemma create_store_exception:
  assumes "Save evs sid \<in> set (store_calls
             (create_submission schema_violation ev_save url_for FIELDS data headers user_data client_data token))"
      and "ev_save evs sid = Inl e"
  shows "result (create_submission schema_violation ev_save url_for FIELDS data headers user_data client_data
            token) = Inl (snd (create_handler e))
       \<and> (\<exists>log2. logged (create_submission schema_violation ev_save url_for FIELDS data headers user_data
            client_data token) = log2 @ fst (create_handler e))"
  using assms
  by (auto simp: create_submission_def validate_request_def Let_def
      split: option.splits sum.splits prod.splits)

lemma update_store_exception:
  assumes "Save evs sid \<in> set (store_calls
             (update_submission schema_violation ev_save url_for FIELDS data headers user_data client_data token
                submission_id))"
      and "ev_save evs sid = Inl e"
  shows "result (update_submission schema_violation ev_save url_for FIELDS data headers user_data client_data
            token submission_id) = Inl (snd (update_handler submission_id e))
       \<and> logged (update_submission schema_violation ev_save url_for FIELDS data headers user_data
            client_data token submission_id) = fst (update_handler submission_id e)"
  using assms
  by (auto simp: update_submission_def validate_request_def Let_def
      split: option.splits sum.splits prod.splits)

lemma get_store_exception:
  assumes "ev_load submission_id = Inl e"
  shows "result (get_submission ev_load submission_id user client token)
           = Inl (snd (get_handler e))
       \<and> logged (get_submission ev_load submission_id user client token)
           = fst (get_handler e)"
  using assms by (simp add: get_submission_def)

lemma unrecognized_handlers:
  assumes "\<not> recognized e"
  shows "create_handler e
           = ([unhandled e], InternalServerError ''Encountered unhandled exception'')"
    and "update_handler submission_id e
           = ([unhandled e], InternalServerError ''Encountered unhandled exception'')"
    and "get_handler e
           = ([unhandled e], InternalServerError ''Encountered unhandled exception'')"
  using assms by (cases e; simp)+

section \<open>A rejected event sequence\<close>

text \<open>
  C1: when the store rejects the events of a create or update request as invalid (its
  \<open>save\<close> raises \<open>InvalidEvent\<close>), the module raises \<open>InternalServerError\<close> with
  the message of the rejection: a server-fault response, where the tests of the
  repository expect \<open>BadRequest\<close>.
\<close>

theorem invalid_event_is_server_fault:
  assumes "ev_save evs sid = Inl (InvalidEvent m)"
  shows "(Save evs sid \<in> set (store_calls
             (create_submission schema_violation ev_save url_for FIELDS data headers user_data client_data token))
          \<longrightarrow> result (create_submission schema_violation ev_save url_for FIELDS data headers user_data
                  client_data token) = Inl (InternalServerError m))
       \<and> (Save evs sid \<in> set (store_calls
             (update_submission schema_violation ev_save url_for FIELDS data headers user_data client_data token
                submission_id))
          \<longrightarrow> result (update_submission schema_violation ev_save url_for FIELDS data headers user_data
                  client_data token submission_id) = Inl (InternalServerError m))"
  using assms
    create_store_exception [where schema_violation = schema_violation
      and ev_save = ev_save and evs = evs and sid = sid
      and e = "InvalidEvent m" and url_for = url_for and FIELDS = FIELDS and data = data
      and headers = headers and user_data = user_data and client_data = client_data
      and token = token]
    update_store_exception [where schema_violation = schema_violation
      and ev_save = ev_save and evs = evs and sid = sid
      and e = "InvalidEvent m" and url_for = url_for and FIELDS = FIELDS and data = data
      and headers = headers and user_data = user_data and client_data = client_data
      and token = token and submission_id = submission_id]
  by simp

theorem invalid_event_is_server_fault_witness:
  "result (create_submission test_schema_violation rejecting_save test_url_for test_FIELDS primary_document []
      test_user_data test_client_data ''asdf1234'') = Inl (InternalServerError ''foo'')
   \<and> \<not> is_BadRequest (InternalServerError ''foo'')
   \<and> result (update_submission test_schema_violation rejecting_save test_url_for test_FIELDS primary_document []
      test_user_data test_client_data ''asdf1234'' ''1'') = Inl (InternalServerError ''foo'')"
proof -
  have r: "rejecting_save evs sid = Inl (InvalidEvent ''foo'')" for evs sid
    by (simp add: rejecting_save_def)
  show ?thesis
    using invalid_event_is_server_fault [OF r, where
        evs = "[CreateSubmission (test_user, test_client, None),
          SetPrimaryClassification (test_user, test_client, None) (JStr ''astro-ph'')]"
        and sid = None and schema_violation = test_schema_violation
        and url_for = test_url_for and FIELDS = test_FIELDS
        and data = primary_document and headers = "[]" and user_data = test_user_data
        and client_data = test_client_data and token = "''asdf1234''"]
      invalid_event_is_server_fault [OF r, where
        evs = "[SetPrimaryClassification (test_user, test_client, None) (JStr ''astro-ph'')]"
        and sid = "Some ''1''" and schema_violation = test_schema_violation
        and url_for = test_url_for and FIELDS = test_FIELDS
        and data = primary_document and headers = "[]" and user_data = test_user_data
        and client_data = test_client_data and token = "''asdf1234''"
        and submission_id = "''1''"]
    by (simp add: create_primary_calls update_primary_calls)
qed

section \<open>A license without a uri\<close>

text \<open>
  C2, as the specification states it, fails: for a license object without \<open>uri\<close>
  compilation does stop without events, but the exception it raises is \<open>KeyError\<close>
  for \<open>uri\<close>, the interpreter's missing-key error, and not a validation error, the
  one that is answered with \<open>BadRequest\<close>.
\<close>

theorem license_without_uri_counterexample:
  "private_update_submission test_FIELDS license_document test_user test_client None
     = (Inl (KeyError ''uri''), license_document)
   \<and> \<not> is_BadRequest (KeyError ''uri'')"
  by (simp add: compile_defs license_document_def)

text \<open>
  C2, amended: for every document whose \<open>license\<close> key is present and whose license
  object lacks the \<open>uri\<close> key, compilation raises \<open>KeyError\<close> for \<open>uri\<close> and
  returns no events (the document is as it was).
\<close>

theorem license_without_uri_raises_KeyError:
  assumes "map_of data ''license'' = Some (JObj license)"
      and "''uri'' \<notin> fst ` set license"
  shows "private_update_submission FIELDS data creator client proxy
           = (Inl (KeyError ''uri''), data)"
proof -
  have "map_of license ''uri'' = None"
    using assms(2) by (simp add: map_of_eq_None_iff)
  then have "license_events (creator, client, proxy) data = Inl (KeyError ''uri'')"
    using assms(1) by (simp add: license_events_def)
  then show ?thesis
    by (simp add: private_update_submission_def)
qed

theorem license_without_uri_raises_KeyError_witness:
  "map_of license_document ''license'' = Some (JObj [(''name'', JStr ''CC BY 4.0'')])
   \<and> ''uri'' \<notin> fst ` set [(''name'', JStr ''CC BY 4.0'')]
   \<and> private_update_submission test_FIELDS license_document test_user test_client None
       = (Inl (KeyError ''uri''), license_document)"
proof -
  have l: "map_of license_document ''license'' = Some (JObj [(''name'', JStr ''CC BY 4.0'')])"
    by (simp add: license_document_def)
  have u: "''uri'' \<notin> fst ` set [(''name'', JStr ''CC BY 4.0'')]"
    by simp
  show ?thesis
    using l u license_without_uri_raises_KeyError [OF l u] by simp
qed

section \<open>What compiling does to the document\<close>

text \<open>
  C3, as the specification states it, fails: compiling the document of the update test,
  whose first author has no \<open>order\<close>, leaves a different document behind; the author
  entry has gained \<open>order = 0\<close>.
\<close>

theorem compile_changes_document_counterexample:
  "snd (private_update_submission test_FIELDS authors_document test_user test_client None)
     = authors_document_after
   \<and> authors_document_after \<noteq> authors_document"
  using compile_authors_document [of test_user test_client None]
  by (simp add: authors_document_def authors_document_after_def)

text \<open>
  C3, amended: whenever compiling returns its event list, the document is as before
  except that every author mapping of \<open>metadata.authors\<close> that had no \<open>order\<close> now
  has \<open>order\<close> equal to its position in the list; the result is a function of the
  document and the agents alone.
\<close>

theorem compile_changes_only_missing_orders:
  assumes "private_update_submission FIELDS data creator client proxy = (Inr evs, data')"
  shows "data' = document_after data"
proof -
  from compile_Inr [OF assms] obtain ev6 where
    "metadata_events FIELDS (creator, client, proxy) data = (Inr ev6, data')"
    by blast
  then show ?thesis by (rule metadata_events_document)
qed

theorem compile_changes_only_missing_orders_witness:
  "private_update_submission test_FIELDS authors_document test_user test_client None
     = (Inr (authors_events (test_user, test_client, None)), authors_document_after)
   \<and> document_after authors_document = authors_document_after
   \<and> private_update_submission test_FIELDS full_document test_user test_client None
     = (Inr (full_events (test_user, test_client, None)), full_document)
   \<and> document_after full_document = full_document"
  using compile_changes_only_missing_orders
      [OF compile_authors_document [of test_user test_client None]]
    compile_changes_only_missing_orders
      [OF compile_full_document [of test_user test_client None]]
    compile_authors_document [of test_user test_client None]
    compile_full_document [of test_user test_client None]
  by simp

section \<open>The first event of a create request\<close>

text \<open>
  C4: every event list that \<open>create_submission\<close> hands to the store is non-empty and
  has a \<open>CreateSubmission\<close> event at index 0, whatever the document is; and whenever
  the document passes the schema, the agents resolve and the document compiles, to an
  empty list or not, the store is called once, with \<open>CreateSubmission\<close> in front of
  the compiled events.
\<close>

theorem create_submits_CreateSubmission_first:
  "(\<forall>call \<in> set (store_calls
        (create_submission schema_violation ev_save url_for FIELDS data headers user_data
           client_data token)).
      \<exists>evs. call = Save evs None \<and> evs \<noteq> [] \<and> is_CreateSubmission (evs ! 0))
   \<and> (\<forall>user client proxy new_events data'.
        schema_violation ''schema/resources/submission.json'' data = None \<longrightarrow>
        private_get_agents headers user_data client_data = Inr (user, client, proxy) \<longrightarrow>
        private_update_submission FIELDS data user client proxy = (Inr new_events, data') \<longrightarrow>
        store_calls
          (create_submission schema_violation ev_save url_for FIELDS data headers user_data
             client_data token)
          = [Save (CreateSubmission (user, client, proxy) # new_events) None])"
  by (auto simp: create_submission_def validate_request_def Let_def
      split: option.splits sum.splits prod.splits)

theorem create_submits_CreateSubmission_first_witness:
  "test_schema_violation ''schema/resources/submission.json'' [] = None
   \<and> private_get_agents [] test_user_data test_client_data
       = Inr (test_user, test_client, None)
   \<and> private_update_submission test_FIELDS [] test_user test_client None = (Inr [], [])
   \<and> store_calls (create_submission test_schema_violation accepting_save test_url_for
        test_FIELDS [] [] test_user_data test_client_data ''asdf1234'')
       = [Save [CreateSubmission (test_user, test_client, None)] None]
   \<and> store_calls (create_submission test_schema_violation accepting_save test_url_for
        test_FIELDS bad_metadata_document [] test_user_data test_client_data ''asdf1234'')
       = []"
  using create_submits_CreateSubmission_first [where schema_violation = test_schema_violation
      and ev_save = accepting_save and url_for = test_url_for and FIELDS = test_FIELDS
      and data = "[]" and headers = "[]" and user_data = test_user_data
      and client_data = test_client_data and token = "''asdf1234''"]
    test_agents compile_empty_document [of test_FIELDS test_user test_client None]
    test_schema_accepts(3) [of "''schema/resources/submission.json''"]
  by (simp add: create_bad_metadata_document)

section \<open>The agents of a request\<close>

text \<open>
  C5: for a request of an authenticated user (\<open>user_id\<close>, \<open>email\<close>) and client
  (\<open>client_id\<close>): when the headers contain \<open>X-On-Behalf-Of\<close>, the creator is the user
  built from the header value and empty strings alone, the proxy is the authenticated
  user and the client is the calling client; when they do not, the creator is the
  authenticated user and there is no proxy.
\<close>

theorem on_behalf_of_swaps_creator_and_proxy:
  assumes "map_of user_data ''user_id'' = Some user_id"
      and "map_of user_data ''email'' = Some email"
      and "map_of client_data ''client_id'' = Some client_id"
  shows "(''X-On-Behalf-Of'' \<in> fst ` set headers \<longrightarrow>
            (\<exists>on_behalf_of. map_of headers ''X-On-Behalf-Of'' = Some on_behalf_of
               \<and> private_get_agents headers user_data client_data
                   = Inr (User (JStr on_behalf_of) (JStr '''') (Some (JStr '''')),
                          Client client_id,
                          Some (User user_id email None))))
       \<and> (''X-On-Behalf-Of'' \<notin> fst ` set headers \<longrightarrow>
            private_get_agents headers user_data client_data
              = Inr (User user_id email None, Client client_id, None))"
proof (cases "map_of headers ''X-On-Behalf-Of''")
  case None
  then have "''X-On-Behalf-Of'' \<notin> fst ` set headers"
    by (simp add: map_of_eq_None_iff)
  with None assms show ?thesis
    by (simp add: private_get_agents_def)
next
  case (Some on_behalf_of)
  then have "''X-On-Behalf-Of'' \<in> fst ` set headers"
    by (auto dest: map_of_SomeD intro: rev_image_eqI)
  with Some assms show ?thesis
    by (simp add: private_get_agents_def)
qed

theorem on_behalf_of_swaps_creator_and_proxy_witness:
  "private_get_agents [(''X-On-Behalf-Of'', ''9876'')] test_user_data test_client_data
     = Inr (User (JStr ''9876'') (JStr '''') (Some (JStr '''')), test_client, Some test_user)
   \<and> private_get_agents [] test_user_data test_client_data
     = Inr (test_user, test_client, None)"
proof -
  have u: "map_of test_user_data ''user_id'' = Some (JInt 1234)"
    and e: "map_of test_user_data ''email'' = Some (JStr ''foo@bar.baz'')"
    by (simp_all add: test_user_data_def)
  have c: "map_of test_client_data ''client_id'' = Some (JInt 5678)"
    by (simp add: test_client_data_def)
  show ?thesis
    using on_behalf_of_swaps_creator_and_proxy [OF u e c, of "[(''X-On-Behalf-Of'', ''9876'')]"]
      on_behalf_of_swaps_creator_and_proxy [OF u e c, of "[]"]
    by (simp add: test_user_def test_client_def)
qed

section \<open>The agents of the events of a request\<close>

text \<open>
  C6: every event of every list that \<open>create_submission\<close> or \<open>update_submission\<close>
  hands to the store, the \<open>CreateSubmission\<close> in front included, carries the one triple
  of agents that the request resolved to.
\<close>

theorem events_share_agents:
  "(\<forall>evs sid. Save evs sid \<in> set (store_calls
        (create_submission schema_violation ev_save url_for FIELDS data headers user_data client_data token))
      \<longrightarrow> (\<exists>agents. private_get_agents headers user_data client_data = Inr agents
             \<and> (\<forall>e \<in> set evs. event_agents e = agents)))
   \<and> (\<forall>evs sid. Save evs sid \<in> set (store_calls
        (update_submission schema_violation ev_save url_for FIELDS data headers user_data client_data token
           submission_id))
      \<longrightarrow> (\<exists>agents. private_get_agents headers user_data client_data = Inr agents
             \<and> (\<forall>e \<in> set evs. event_agents e = agents)))"
proof (intro conjI allI impI)
  fix evs sid
  assume "Save evs sid \<in> set (store_calls
      (create_submission schema_violation ev_save url_for FIELDS data headers user_data client_data token))"
  then obtain user client proxy new_events data' where
    a: "private_get_agents headers user_data client_data = Inr (user, client, proxy)" and
    c: "private_update_submission FIELDS data user client proxy = (Inr new_events, data')" and
    e: "evs = CreateSubmission (user, client, proxy) # new_events"
    by (auto simp: create_submission_def validate_request_def Let_def
      split: option.splits sum.splits prod.splits)
  from compile_agents [OF c] e
  have "\<forall>e \<in> set evs. event_agents e = (user, client, proxy)" by simp
  with a show "\<exists>agents. private_get_agents headers user_data client_data = Inr agents
      \<and> (\<forall>e \<in> set evs. event_agents e = agents)" by blast
next
  fix evs sid
  assume "Save evs sid \<in> set (store_calls
      (update_submission schema_violation ev_save url_for FIELDS data headers user_data client_data token
         submission_id))"
  then obtain user client proxy data' where
    a: "private_get_agents headers user_data client_data = Inr (user, client, proxy)" and
    c: "private_update_submission FIELDS data user client proxy = (Inr evs, data')"
    by (auto simp: update_submission_def validate_request_def Let_def
      split: option.splits sum.splits prod.splits)
  from compile_agents [OF c] a
  show "\<exists>agents. private_get_agents headers user_data client_data = Inr agents
      \<and> (\<forall>e \<in> set evs. event_agents e = agents)" by blast
qed

theorem events_share_agents_witness:
  "store_calls (create_submission test_schema_violation accepting_save test_url_for test_FIELDS full_document []
      test_user_data test_client_data ''asdf1234'')
     = [Save (CreateSubmission (test_user, test_client, None)
              # full_events (test_user, test_client, None)) None]
   \<and> map event_agents (CreateSubmission (test_user, test_client, None)
                          # full_events (test_user, test_client, None))
     = replicate 8 (test_user, test_client, None)
   \<and> store_calls (update_submission test_schema_violation accepting_save test_url_for test_FIELDS full_document []
      test_user_data test_client_data ''asdf1234'' ''1'')
     = [Save (full_events (test_user, test_client, None)) (Some ''1'')]
   \<and> map event_agents (full_events (test_user, test_client, None))
     = replicate 7 (test_user, test_client, None)"
proof -
  let ?ag = "(test_user, test_client, None)"
  from events_share_agents [where schema_violation = test_schema_violation
      and ev_save = accepting_save and url_for = test_url_for and FIELDS = test_FIELDS
      and data = full_document and headers = "[]" and user_data = test_user_data
      and client_data = test_client_data and token = "''asdf1234''"
      and submission_id = "''1''"]
  have "\<forall>e \<in> set (CreateSubmission ?ag # full_events ?ag). event_agents e = ?ag"
    and "\<forall>e \<in> set (full_events ?ag). event_agents e = ?ag"
    by (simp_all add: create_full_calls update_full_calls test_agents)
  then have "map event_agents (CreateSubmission ?ag # full_events ?ag) = replicate 8 ?ag"
    and "map event_agents (full_events ?ag) = replicate 7 ?ag"
    by (simp_all add: full_events_def numeral_eq_Suc)
  then show ?thesis
    by (simp only: create_full_calls update_full_calls simp_thms)
qed

section \<open>The authors of a document\<close>



section \<open>The metadata fields of a document\<close>



section \<open>Exceptions of the store that no clause names\<close>

text \<open>
  C9, as the specification states it, fails in its last clause: \<open>url_for\<close> is called
  after the \<^verbatim>\<open>except\<close> clauses (lines 84-87 and 126-129), so an exception of this
  collaborator leaves \<open>update_submission\<close> and \<open>create_submission\<close> as it is,
  and no error record is logged for it.
\<close>

theorem collaborator_exception_crosses_counterexample:
  "\<not> recognized (OtherException ''BuildError'' ''Could not build url for endpoint'')
   \<and> result (update_submission test_schema_violation accepting_save failing_url_for
        test_FIELDS primary_document [] test_user_data test_client_data ''asdf1234'' ''1'')
       = Inl (OtherException ''BuildError'' ''Could not build url for endpoint'')
   \<and> logged (update_submission test_schema_violation accepting_save failing_url_for
        test_FIELDS primary_document [] test_user_data test_client_data ''asdf1234'' ''1'')
       = []
   \<and> result (create_submission test_schema_violation accepting_save failing_url_for
        test_FIELDS primary_document [] test_user_data test_client_data ''asdf1234'')
       = Inl (OtherException ''BuildError'' ''Could not build url for endpoint'')
   \<and> logged (create_submission test_schema_violation accepting_save failing_url_for
        test_FIELDS primary_document [] test_user_data test_client_data ''asdf1234'')
       = [Debug ''Received request to create submission'' [],
          Debug ''User: {user}; client: {client}, proxy: {proxy}''
            [Str_agent test_user, Str_agent test_client, Str_proxy None]]"
  by (simp add: update_submission_def create_submission_def validate_request_def
      test_schema_accepts test_agents compile_primary_document accepting_save_def
      failing_url_for_def Let_def)

text \<open>
  C9, amended: when the store raises an exception that is none of \<open>InvalidEvent\<close>,
  \<open>SaveError\<close>, \<open>NoSuchSubmission\<close>, each of \<open>create_submission\<close>,
  \<open>update_submission\<close> and \<open>get_submission\<close> logs an error record with the type and
  the message of the exception as its last record, and raises \<open>InternalServerError\<close>
  with a fixed message that carries nothing of the exception: no exception of the store
  that no clause names reaches the response.
\<close>

theorem unrecognized_exception_logged_and_generic:
  assumes "\<not> recognized e"
  shows "(Save evs sid \<in> set (store_calls
             (create_submission schema_violation ev_save url_for FIELDS data headers user_data client_data token))
          \<longrightarrow> ev_save evs sid = Inl e
          \<longrightarrow> result (create_submission schema_violation ev_save url_for FIELDS data headers user_data
                  client_data token)
                = Inl (InternalServerError ''Encountered unhandled exception'')
              \<and> (\<exists>log2. logged (create_submission schema_violation ev_save url_for FIELDS data headers
                    user_data client_data token)
                  = log2 @ [Error ''Unhandled exception: (%s) %s'' [Type_of e, Str_of e]]))
       \<and> (Save evs sid \<in> set (store_calls
             (update_submission schema_violation ev_save url_for FIELDS data headers user_data client_data token
                submission_id))
          \<longrightarrow> ev_save evs sid = Inl e
          \<longrightarrow> result (update_submission schema_violation ev_save url_for FIELDS data headers user_data
                  client_data token submission_id)
                = Inl (InternalServerError ''Encountered unhandled exception'')
              \<and> logged (update_submission schema_violation ev_save url_for FIELDS data headers user_data
                  client_data token submission_id)
                = [Error ''Unhandled exception: (%s) %s'' [Type_of e, Str_of e]])
       \<and> (ev_load submission_id' = Inl e
          \<longrightarrow> result (get_submission ev_load submission_id' user client token')
                = Inl (InternalServerError ''Encountered unhandled exception'')
              \<and> logged (get_submission ev_load submission_id' user client token')
                = [Error ''Unhandled exception: (%s) %s'' [Type_of e, Str_of e]])"
proof (intro conjI impI)
  assume "Save evs sid \<in> set (store_calls
      (create_submission schema_violation ev_save url_for FIELDS data headers user_data client_data token))"
    and "ev_save evs sid = Inl e"
  then have "result (create_submission schema_violation ev_save url_for FIELDS data headers user_data
        client_data token) = Inl (snd (create_handler e))
      \<and> (\<exists>log2. logged (create_submission schema_violation ev_save url_for FIELDS data headers user_data
            client_data token) = log2 @ fst (create_handler e))"
    by (rule create_store_exception [where ev_save = ev_save and evs = evs and sid = sid])
  then
  show "result (create_submission schema_violation ev_save url_for FIELDS data headers user_data client_data
          token) = Inl (InternalServerError ''Encountered unhandled exception'')"
    and "\<exists>log2. logged (create_submission schema_violation ev_save url_for FIELDS data headers
            user_data client_data token)
          = log2 @ [Error ''Unhandled exception: (%s) %s'' [Type_of e, Str_of e]]"
    by (simp_all add: unrecognized_handlers [OF assms] unhandled_def)
next
  assume "Save evs sid \<in> set (store_calls
      (update_submission schema_violation ev_save url_for FIELDS data headers user_data client_data token
         submission_id))"
    and "ev_save evs sid = Inl e"
  then have "result (update_submission schema_violation ev_save url_for FIELDS data headers user_data
        client_data token submission_id) = Inl (snd (update_handler submission_id e))
      \<and> logged (update_submission schema_violation ev_save url_for FIELDS data headers user_data
            client_data token submission_id) = fst (update_handler submission_id e)"
    by (rule update_store_exception [where ev_save = ev_save and evs = evs and sid = sid])
  then
  show "result (update_submission schema_violation ev_save url_for FIELDS data headers user_data client_data
          token submission_id) = Inl (InternalServerError ''Encountered unhandled exception'')"
    and "logged (update_submission schema_violation ev_save url_for FIELDS data headers user_data
            client_data token submission_id)
          = [Error ''Unhandled exception: (%s) %s'' [Type_of e, Str_of e]]"
    by (simp_all add: unrecognized_handlers [OF assms] unhandled_def)
next
  assume "ev_load submission_id' = Inl e"
  then have "result (get_submission ev_load submission_id' user client token')
        = Inl (snd (get_handler e))
      \<and> logged (get_submission ev_load submission_id' user client token')
        = fst (get_handler e)"
    by (rule get_store_exception [where ev_load = ev_load])
  then
  show "result (get_submission ev_load submission_id' user client token')
          = Inl (InternalServerError ''Encountered unhandled exception'')"
    and "logged (get_submission ev_load submission_id' user client token')
          = [Error ''Unhandled exception: (%s) %s'' [Type_of e, Str_of e]]"
    by (simp_all add: unrecognized_handlers [OF assms] unhandled_def)
qed

theorem unrecognized_exception_logged_and_generic_witness:
  "\<not> recognized (OtherException ''RuntimeError'' ''connection reset'')
   \<and> result (create_submission test_schema_violation failing_save test_url_for test_FIELDS primary_document []
        test_user_data test_client_data ''asdf1234'')
       = Inl (InternalServerError ''Encountered unhandled exception'')
   \<and> last (logged (create_submission test_schema_violation failing_save test_url_for test_FIELDS primary_document []
        test_user_data test_client_data ''asdf1234''))
       = Error ''Unhandled exception: (%s) %s''
           [Type_of (OtherException ''RuntimeError'' ''connection reset''),
            Str_of (OtherException ''RuntimeError'' ''connection reset'')]
   \<and> result (update_submission test_schema_violation failing_save test_url_for test_FIELDS primary_document []
        test_user_data test_client_data ''asdf1234'' ''1'')
       = Inl (InternalServerError ''Encountered unhandled exception'')
   \<and> logged (update_submission test_schema_violation failing_save test_url_for test_FIELDS primary_document []
        test_user_data test_client_data ''asdf1234'' ''1'')
       = [Error ''Unhandled exception: (%s) %s''
           [Type_of (OtherException ''RuntimeError'' ''connection reset''),
            Str_of (OtherException ''RuntimeError'' ''connection reset'')]]
   \<and> result (get_submission failing_load ''1'' None None None)
       = Inl (InternalServerError ''Encountered unhandled exception'')
   \<and> logged (get_submission failing_load ''1'' None None None)
       = [Error ''Unhandled exception: (%s) %s''
           [Type_of (OtherException ''RuntimeError'' ''connection reset''),
            Str_of (OtherException ''RuntimeError'' ''connection reset'')]]"
proof -
  let ?e = "OtherException ''RuntimeError'' ''connection reset''"
  have n: "\<not> recognized ?e" by simp
  have s: "failing_save evs sid = Inl ?e" for evs sid
    by (simp add: failing_save_def)
  have l: "failing_load ''1'' = Inl ?e"
    by (simp add: failing_load_def)
  have "\<exists>log2. logged (create_submission test_schema_violation failing_save test_url_for test_FIELDS
            primary_document [] test_user_data test_client_data ''asdf1234'')
          = log2 @ [Error ''Unhandled exception: (%s) %s'' [Type_of ?e, Str_of ?e]]"
    and "result (create_submission test_schema_violation failing_save test_url_for test_FIELDS primary_document []
        test_user_data test_client_data ''asdf1234'')
       = Inl (InternalServerError ''Encountered unhandled exception'')"
    using unrecognized_exception_logged_and_generic [OF n, where
        evs = "[CreateSubmission (test_user, test_client, None),
          SetPrimaryClassification (test_user, test_client, None) (JStr ''astro-ph'')]"
        and sid = None and schema_violation = test_schema_violation
        and ev_save = failing_save and url_for = test_url_for
        and FIELDS = test_FIELDS and data = primary_document and headers = "[]"
        and user_data = test_user_data and client_data = test_client_data
        and token = "''asdf1234''"]
    by (simp_all add: create_primary_calls s)
  moreover have "result (update_submission test_schema_violation failing_save test_url_for test_FIELDS
        primary_document [] test_user_data test_client_data ''asdf1234'' ''1'')
       = Inl (InternalServerError ''Encountered unhandled exception'')
     \<and> logged (update_submission test_schema_violation failing_save test_url_for test_FIELDS primary_document []
        test_user_data test_client_data ''asdf1234'' ''1'')
       = [Error ''Unhandled exception: (%s) %s'' [Type_of ?e, Str_of ?e]]
     \<and> result (get_submission failing_load ''1'' None None None)
       = Inl (InternalServerError ''Encountered unhandled exception'')
     \<and> logged (get_submission failing_load ''1'' None None None)
       = [Error ''Unhandled exception: (%s) %s'' [Type_of ?e, Str_of ?e]]"
    using unrecognized_exception_logged_and_generic [OF n, where
        evs = "[SetPrimaryClassification (test_user, test_client, None) (JStr ''astro-ph'')]"
        and sid = "Some ''1''" and schema_violation = test_schema_violation
        and ev_save = failing_save and url_for = test_url_for
        and FIELDS = test_FIELDS and data = primary_document and headers = "[]"
        and user_data = test_user_data and client_data = test_client_data
        and token = "''asdf1234''" and submission_id = "''1''" and ev_load = failing_load
        and submission_id' = "''1''" and user = None and client = None and token' = None]
    by (simp add: update_primary_calls s l)
  ultimately show ?thesis
    using n by auto
qed

section \<open>Reading a submission does not depend on the credentials\<close>

text \<open>
  C10: for every submission identifier and every behaviour of the store, the outcome of
  \<open>get_submission\<close> (response or exception, log records and store calls) is the same
  whatever the \<open>user\<close>, \<open>client\<close> and \<open>token\<close> arguments are.
\<close>

theorem get_submission_ignores_credentials:
  "get_submission ev_load submission_id user client token =
   get_submission ev_load submission_id user' client' token'"
  by (simp add: get_submission_def)

end
